theory Spec2Isabelle
  imports Main "HOL-Library.Sublist"
begin

section \<open>The image-analysis server (backend/server.js)\<close>

text \<open>
  The server stages uploads on disk, asks a local Ollama backend to describe them and
  deletes the staged files. Every \<open>async\<close> function of the source becomes a function
  that takes the state of the machine (the files on disk and the trace of the calls
  made to the outside) and returns its result together with the new state. A function
  that can throw returns \<open>js_error + 'a\<close>; a function whose whole body sits in a
  \<open>try\<close> with a \<open>catch\<close> that returns a value has no error in its type.
\<close>

subsection \<open>Values\<close>

type_synonym bytes = "nat list"

text \<open>A JavaScript \<open>Error\<close> object: its optional \<open>code\<close> property and its message.\<close>

datatype js_error = JsError (code: "string option") (message: string)

text \<open>\<open>new Error(msg)\<close>: an error without a \<open>code\<close>.\<close>

definition new_Error :: "string \<Rightarrow> js_error" where
  "new_Error msg = JsError None msg"

text \<open>
  The answer to \<open>GET /api/tags\<close>: the HTTP status and \<open>response.data\<close>, which may be
  missing (\<open>None\<close>), lack the \<open>models\<close> property (\<open>Some None\<close>) or list the names of
  the models.
\<close>

record tags_response =
  tags_status :: nat
  tags_data :: "string list option option"

text \<open>
  The answer to \<open>POST /api/generate\<close>: \<open>response.data\<close>, which may be missing, and its
  \<open>response\<close> property, which may be missing too.
\<close>

record gen_response =
  gen_data :: "string option option"

record payload =
  pl_model :: string
  pl_prompt :: string
  pl_images :: "string list"
  pl_stream :: bool
  pl_options :: "(string \<times> string) list"

text \<open>The calls that leave the process, in the order in which they are made.\<close>

datatype event =
    GetTags
  | SharpToFile string string
  | ReadFile string
  | PostGenerate payload
  | Unlink string

text \<open>
  What the outside does while one image is analysed: the two answers of the backend to
  \<open>GET /api/tags\<close> (the liveness check and the model check are two requests), the
  outcome of the image encoder for the given width and input (the JPEG it writes, or
  its error together with what it has put at the output path by then: nothing, or a
  partial file), the faults of the file system, the base64 encoding of
  \<open>Buffer.toString\<close>, the outcome of the generate call and the elapsed time as
  \<open>toFixed(1)\<close> prints it.
\<close>

record world =
  health_get :: "js_error + tags_response"
  tags_get :: "js_error + tags_response"
  sharp_encode :: "nat \<Rightarrow> bytes \<Rightarrow> (js_error \<times> bytes option) + bytes"
  read_fault :: "string \<Rightarrow> js_error option"
  base64 :: "bytes \<Rightarrow> string"
  generate :: "payload \<Rightarrow> js_error + gen_response"
  unlink_fault :: "string \<Rightarrow> js_error option"
  elapsed :: string

text \<open>The machine: the files on disk with their contents, and the trace.\<close>

record sys =
  files :: "string \<rightharpoonup> bytes"
  log :: "event list"

definition emit :: "event \<Rightarrow> sys \<Rightarrow> sys" where
  "emit ev s = s\<lparr>log := log s @ [ev]\<rparr>"

subsection \<open>Configuration\<close>

text \<open>\<open>process.env.GEMMA_MODEL || 'gemma3:4b'\<close>: an unset or empty variable gives the default.\<close>

record process_env =
  env_GEMMA_MODEL :: "string option"

definition or_default :: "string option \<Rightarrow> string \<Rightarrow> string" where
  "or_default v d = (case v of None \<Rightarrow> d | Some t \<Rightarrow> if t = [] then d else t)"

definition GEMMA_MODEL :: "process_env \<Rightarrow> string" where
  "GEMMA_MODEL pe = or_default (env_GEMMA_MODEL pe) ''gemma3:4b''"

definition DEFAULT_PROMPT :: string where
  "DEFAULT_PROMPT = ''Analyze this image and provide a detailed summary''"

subsection \<open>The file system\<close>

definition enoent :: "string \<Rightarrow> string \<Rightarrow> js_error" where
  "enoent syscall p =
     JsError (Some ''ENOENT'')
       (''ENOENT: no such file or directory, '' @ syscall @ '' '' @ [CHR 0x27] @ p @ [CHR 0x27])"

definition fs_readFile :: "world \<Rightarrow> string \<Rightarrow> sys \<Rightarrow> (js_error + bytes) \<times> sys" where
  "fs_readFile w p s =
     (case files s p of
        None \<Rightarrow> (Inl (enoent ''open'' p), emit (ReadFile p) s)
      | Some b \<Rightarrow>
          (case read_fault w p of
             Some e \<Rightarrow> (Inl e, emit (ReadFile p) s)
           | None \<Rightarrow> (Inr b, emit (ReadFile p) s)))"

definition fs_unlink :: "world \<Rightarrow> string \<Rightarrow> sys \<Rightarrow> (js_error + unit) \<times> sys" where
  "fs_unlink w p s =
     (case files s p of
        None \<Rightarrow> (Inl (enoent ''unlink'' p), emit (Unlink p) s)
      | Some b \<Rightarrow>
          (case unlink_fault w p of
             Some e \<Rightarrow> (Inl e, emit (Unlink p) s)
           | None \<Rightarrow> (Inr (), emit (Unlink p) (s\<lparr>files := (files s)(p := None)\<rparr>))))"

text \<open>
  \<open>sharp(inputPath).resize(maxWidth, ...).jpeg(...).toFile(outputPath)\<close>. An encoder
  that fails may already have created the output file; what it leaves there stays.
\<close>

definition sharp_toFile :: "world \<Rightarrow> string \<Rightarrow> nat \<Rightarrow> string \<Rightarrow> sys \<Rightarrow> (js_error + unit) \<times> sys" where
  "sharp_toFile w inputPath maxWidth outputPath s =
     (case files s inputPath of
        None \<Rightarrow> (Inl (new_Error (''Input file is missing: '' @ inputPath)),
                 emit (SharpToFile inputPath outputPath) s)
      | Some b \<Rightarrow>
          (case sharp_encode w maxWidth b of
             Inl (e, left) \<Rightarrow>
               (Inl e, emit (SharpToFile inputPath outputPath)
                         (case left of
                            None \<Rightarrow> s
                          | Some part \<Rightarrow> s\<lparr>files := (files s)(outputPath \<mapsto> part)\<rparr>))
           | Inr jpeg \<Rightarrow>
               (Inr (), emit (SharpToFile inputPath outputPath)
                          (s\<lparr>files := (files s)(outputPath \<mapsto> jpeg)\<rparr>))))"

subsection \<open>Utility functions\<close>

definition convertImageToBase64 :: "world \<Rightarrow> string \<Rightarrow> sys \<Rightarrow> (js_error + string) \<times> sys" where
  "convertImageToBase64 w filePath s =
     (case fs_readFile w filePath s of
        (Inr buffer, s1) \<Rightarrow> (Inr (base64 w buffer), s1)
      | (Inl e, s1) \<Rightarrow> (Inl (new_Error (''Failed to read image file: '' @ message e)), s1))"

definition optimizeImage :: "world \<Rightarrow> string \<Rightarrow> string \<Rightarrow> sys \<Rightarrow> string \<times> sys" where
  "optimizeImage w inputPath outputPath s =
     (case sharp_toFile w inputPath 1024 outputPath s of
        (Inr u, s1) \<Rightarrow> (outputPath, s1)
      | (Inl e, s1) \<Rightarrow> (inputPath, s1))"

definition checkOllamaHealth :: "world \<Rightarrow> sys \<Rightarrow> bool \<times> sys" where
  "checkOllamaHealth w s =
     (case health_get w of
        Inr response \<Rightarrow> (tags_status response = 200, emit GetTags s)
      | Inl e \<Rightarrow> (False, emit GetTags s))"

text \<open>\<open>name.includes(t)\<close>: \<open>t\<close> occurs in \<open>name\<close> as a run of consecutive characters.\<close>

fun str_includes :: "string \<Rightarrow> string \<Rightarrow> bool" where
  "str_includes [] t = (t = [])"
| "str_includes (c # cs) t = (prefix t (c # cs) \<or> str_includes cs t)"

text \<open>\<open>modelName.split(':')[0]\<close>: the characters before the first colon.\<close>

definition split_colon_head :: "string \<Rightarrow> string" where
  "split_colon_head modelName = takeWhile (\<lambda>c. c \<noteq> CHR '':'') modelName"

definition checkModelAvailability :: "world \<Rightarrow> string \<Rightarrow> sys \<Rightarrow> bool \<times> sys" where
  "checkModelAvailability w modelName s =
     (case tags_get w of
        Inr response \<Rightarrow>
          (case tags_data response of
             None \<Rightarrow> (False, emit GetTags s)
           | Some d \<Rightarrow>
               (list_ex (\<lambda>name. str_includes name (split_colon_head modelName))
                  (case d of None \<Rightarrow> [] | Some ms \<Rightarrow> ms),
                emit GetTags s))
      | Inl e \<Rightarrow> (False, emit GetTags s))"

definition cleanupFile :: "world \<Rightarrow> string \<Rightarrow> sys \<Rightarrow> sys" where
  "cleanupFile w filePath s = snd (fs_unlink w filePath s)"

subsection \<open>The inference call\<close>

definition generate_payload :: "process_env \<Rightarrow> string \<Rightarrow> string \<Rightarrow> payload" where
  "generate_payload pe prompt imageBase64 =
     \<lparr>pl_model = GEMMA_MODEL pe, pl_prompt = prompt, pl_images = [imageBase64],
      pl_stream = False,
      pl_options = [(''temperature'', ''0.7''), (''top_p'', ''0.9''), (''max_tokens'', ''500'')]\<rparr>"

text \<open>
  The generate call is made with \<open>timeout: 120000\<close> (line 153). When that time elapses
  before the backend answers, axios rejects the call with this error.
\<close>

definition axios_timeout_error :: js_error where
  "axios_timeout_error = JsError (Some ''ECONNABORTED'') ''timeout of 120000ms exceeded''"

definition axios_post_generate :: "world \<Rightarrow> payload \<Rightarrow> sys \<Rightarrow> (js_error + gen_response) \<times> sys" where
  "axios_post_generate w pl s = (generate w pl, emit (PostGenerate pl) s)"

text \<open>\<open>response.data && response.data.response\<close>: the text, when it is there and not empty.\<close>

definition response_text :: "gen_response \<Rightarrow> string option" where
  "response_text response =
     (case gen_data response of
        None \<Rightarrow> None
      | Some None \<Rightarrow> None
      | Some (Some t) \<Rightarrow> if t = [] then None else Some t)"

text \<open>The body of the \<open>try\<close> block of \<open>callGemma3Vision\<close> (lines 114 to 173).\<close>

definition callGemma3Vision_try ::
  "process_env \<Rightarrow> world \<Rightarrow> string \<Rightarrow> string \<Rightarrow> sys \<Rightarrow> (js_error + string) \<times> sys" where
  "callGemma3Vision_try pe w imagePath prompt s =
     (case checkOllamaHealth w s of (isOllamaHealthy, s1) \<Rightarrow>
        if \<not> isOllamaHealthy then
          (Inl (new_Error ''Ollama server is not running. Please start Ollama with: ollama serve''), s1)
        else
     (case checkModelAvailability w (GEMMA_MODEL pe) s1 of (isModelAvailable, s2) \<Rightarrow>
        if \<not> isModelAvailable then
          (Inl (new_Error (''Model '' @ GEMMA_MODEL pe @ '' not found. Please install with: ollama pull ''
                           @ GEMMA_MODEL pe)), s2)
        else
     (case optimizeImage w imagePath (imagePath @ ''_optimized.jpg'') s2 of (finalImagePath, s3) \<Rightarrow>
     (case convertImageToBase64 w finalImagePath s3 of
        (Inl e, s4) \<Rightarrow> (Inl e, s4)
      | (Inr imageBase64, s4) \<Rightarrow>
     (case axios_post_generate w (generate_payload pe prompt imageBase64) s4 of
        (Inl e, s5) \<Rightarrow> (Inl e, s5)
      | (Inr response, s5) \<Rightarrow>
          (let s6 = (if finalImagePath \<noteq> imagePath then snd (fs_unlink w finalImagePath s5) else s5)
           in case response_text response of
                Some t \<Rightarrow> (Inr t, s6)
              | None \<Rightarrow> (Inl (new_Error ''Invalid response from Ollama''), s6)))))))"

text \<open>The \<open>catch\<close> block of \<open>callGemma3Vision\<close> (lines 175 to 183): what is thrown instead.\<close>

definition callGemma3Vision_catch :: "js_error \<Rightarrow> js_error" where
  "callGemma3Vision_catch error =
     (if code error = Some ''ECONNREFUSED'' then
        new_Error ''Cannot connect to Ollama. Make sure Ollama is running on port 11434''
      else if code error = Some ''ETIMEDOUT'' then
        new_Error ''Analysis timed out. Try with a smaller image or simpler prompt''
      else new_Error (''Gemma3 analysis failed: '' @ message error))"

definition callGemma3Vision ::
  "process_env \<Rightarrow> world \<Rightarrow> string \<Rightarrow> string \<Rightarrow> sys \<Rightarrow> (js_error + string) \<times> sys" where
  "callGemma3Vision pe w imagePath prompt s =
     (case callGemma3Vision_try pe w imagePath prompt s of
        (Inr summary, s1) \<Rightarrow> (Inr summary, s1)
      | (Inl error, s1) \<Rightarrow> (Inl (callGemma3Vision_catch error), s1))"

subsection \<open>The routes\<close>

text \<open>A file as multer hands it to the route: \<open>originalname\<close>, \<open>path\<close> and \<open>size\<close> (in bytes).\<close>

record upfile =
  originalname :: string
  path :: string
  size_bytes :: nat

text \<open>An entry of \<open>results\<close> in the batch route.\<close>

datatype outcome =
    Succeeded (out_filename: string) (out_summary: string) (out_processingTime: string)
      (out_fileSize: nat)
  | Failed (out_filename: string) (out_error: string)

fun success :: "outcome \<Rightarrow> bool" where
  "success (Succeeded f t p n) = True"
| "success (Failed f e) = False"

record batch_summary =
  total :: nat
  successful :: nat
  failed :: nat

text \<open>The JSON bodies the two routes send.\<close>

datatype body =
    ErrorOnly string
  | ErrorAt string string
  | Analysis bool string string nat string string string
  | Batch bool "outcome list" batch_summary string

datatype response = Response (status: nat) (body: body)

text \<open>
  \<open>POST /analyze-image\<close>. \<open>now\<close> is the timestamp of the response. The \<open>finally\<close>
  block runs \<open>cleanupFile\<close> when \<open>filePath\<close> is truthy, that is set and not empty.
\<close>

definition analyze_image ::
  "process_env \<Rightarrow> world \<Rightarrow> string \<Rightarrow> upfile option \<Rightarrow> string option \<Rightarrow> sys \<Rightarrow> response \<times> sys" where
  "analyze_image pe w now req_file req_prompt s =
     (case req_file of
        None \<Rightarrow> (Response 400 (ErrorOnly ''No image file provided''), s)
      | Some file \<Rightarrow>
          (case callGemma3Vision pe w (path file) (or_default req_prompt DEFAULT_PROMPT) s of
             (Inr summary, s1) \<Rightarrow>
               (Response 200
                  (Analysis True summary (originalname file) (size_bytes file) (elapsed w @ ''s'') now
                     (GEMMA_MODEL pe)),
                if path file \<noteq> [] then cleanupFile w (path file) s1 else s1)
           | (Inl error, s1) \<Rightarrow>
               (Response 500 (ErrorAt (message error) now),
                if path file \<noteq> [] then cleanupFile w (path file) s1 else s1)))"

text \<open>
  One turn of the loop of \<open>POST /batch-analyze\<close> (lines 322 to 350): the \<open>try\<close>, its
  \<open>catch\<close> and its \<open>finally\<close> for one file. The \<open>catch\<close> only pushes an outcome and
  \<open>cleanupFile\<close> swallows its own failure, so a turn returns and never throws.
\<close>

definition batch_item ::
  "process_env \<Rightarrow> world \<Rightarrow> string \<Rightarrow> upfile \<Rightarrow> outcome list \<Rightarrow> sys \<Rightarrow> outcome list \<times> sys" where
  "batch_item pe w prompt file results s =
     (case callGemma3Vision pe w (path file) prompt s of
        (Inr summary, s1) \<Rightarrow>
          (results @ [Succeeded (originalname file) summary (elapsed w @ ''s'') (size_bytes file)],
           cleanupFile w (path file) s1)
      | (Inl error, s1) \<Rightarrow>
          (results @ [Failed (originalname file) (message error)],
           cleanupFile w (path file) s1))"

text \<open>
  The loop itself, from index \<open>i\<close> on: \<open>ws i\<close> is what the outside does during turn \<open>i\<close>,
  and the list holds the files from index \<open>i\<close> on.
\<close>

fun batch_loop ::
  "process_env \<Rightarrow> (nat \<Rightarrow> world) \<Rightarrow> string \<Rightarrow> nat \<Rightarrow> upfile list \<Rightarrow> outcome list \<Rightarrow> sys
     \<Rightarrow> outcome list \<times> sys" where
  "batch_loop pe ws prompt i [] results s = (results, s)"
| "batch_loop pe ws prompt i (file # rest) results s =
     (case batch_item pe (ws i) prompt file results s of
        (results1, s1) \<Rightarrow> batch_loop pe ws prompt (Suc i) rest results1 s1)"

text \<open>
  The \<open>try\<close> block of the route. Nothing in it throws outside the turns of the loop, and
  a turn catches what it throws, so the block always returns a response.
\<close>

definition batch_analyze_try ::
  "process_env \<Rightarrow> (nat \<Rightarrow> world) \<Rightarrow> string \<Rightarrow> upfile list \<Rightarrow> string option \<Rightarrow> sys
     \<Rightarrow> (js_error + response) \<times> sys" where
  "batch_analyze_try pe ws now uploadedFiles req_prompt s =
     (if length uploadedFiles = 0 then
        (Inr (Response 400 (ErrorOnly ''No image files provided'')), s)
      else
        (case batch_loop pe ws (or_default req_prompt DEFAULT_PROMPT) 0 uploadedFiles [] s of
           (results, s1) \<Rightarrow>
             (let successCount = length (filter success results)
              in (Inr (Response 200
                         (Batch True results
                            \<lparr>total = length uploadedFiles, successful = successCount,
                             failed = length uploadedFiles - successCount\<rparr>
                            now)),
                  s1))))"

text \<open>The \<open>catch\<close> block of the route: every file is cleaned up once more.\<close>

fun cleanup_all :: "world \<Rightarrow> upfile list \<Rightarrow> sys \<Rightarrow> sys" where
  "cleanup_all w [] s = s"
| "cleanup_all w (file # rest) s = cleanup_all w rest (cleanupFile w (path file) s)"

text \<open>
  \<open>POST /batch-analyze\<close>. \<open>req_files\<close> is \<open>req.files\<close>, which \<open>|| []\<close> replaces when it
  is missing; \<open>wc\<close> is what the outside does during the \<open>catch\<close> block.
\<close>

definition batch_analyze ::
  "process_env \<Rightarrow> (nat \<Rightarrow> world) \<Rightarrow> world \<Rightarrow> string \<Rightarrow> upfile list option \<Rightarrow> string option \<Rightarrow> sys
     \<Rightarrow> response \<times> sys" where
  "batch_analyze pe ws wc now req_files req_prompt s =
     (let uploadedFiles = (case req_files of None \<Rightarrow> [] | Some fs \<Rightarrow> fs)
      in case batch_analyze_try pe ws now uploadedFiles req_prompt s of
           (Inr r, s1) \<Rightarrow> (r, s1)
         | (Inl error, s1) \<Rightarrow>
             (Response 500 (ErrorAt (message error) now), cleanup_all wc uploadedFiles s1))"

subsection \<open>Reading the trace\<close>

text \<open>The payloads of the generate calls in a trace, and the paths of its unlink calls.\<close>

definition posted :: "event list \<Rightarrow> payload list" where
  "posted evs = concat (map (\<lambda>ev. case ev of PostGenerate pl \<Rightarrow> [pl] | _ \<Rightarrow> []) evs)"

definition unlinked :: "event list \<Rightarrow> string list" where
  "unlinked evs = concat (map (\<lambda>ev. case ev of Unlink p \<Rightarrow> [p] | _ \<Rightarrow> []) evs)"

subsection \<open>Concrete runs\<close>

text \<open>
  A backend that is up, lists the model and answers; one that refuses connections; one
  that lacks the model; one whose generate call fails to connect in time, is refused
  or is reset; one that does not answer within the 120 seconds of the call; one that
  answers with an empty text; and an encoder that rejects the image and leaves an
  empty output file. Then uploads
  staged on disk, and batches in which the second turn times out, every turn finds the
  backend down, or every turn succeeds.
\<close>

definition pe0 :: process_env where
  "pe0 = \<lparr>env_GEMMA_MODEL = None\<rparr>"

definition tags_ok :: tags_response where
  "tags_ok = \<lparr>tags_status = 200, tags_data = Some (Some [''llava:7b'', ''gemma3:4b''])\<rparr>"

definition w_ok :: world where
  "w_ok = \<lparr>health_get = Inr tags_ok, tags_get = Inr tags_ok,
           sharp_encode = (\<lambda>maxWidth b. Inr [255, 216, 255]),
           read_fault = (\<lambda>p. None),
           base64 = (\<lambda>b. if b = [255, 216, 255] then ''/9j/'' else ''iVBO''),
           generate = (\<lambda>pl. Inr \<lparr>gen_data = Some (Some ''A cat on a sofa.'')\<rparr>),
           unlink_fault = (\<lambda>p. None),
           elapsed = ''1.2''\<rparr>"

definition w_down :: world where
  "w_down = w_ok\<lparr>health_get := Inl (JsError (Some ''ECONNREFUSED'') ''connect ECONNREFUSED 127.0.0.1:11434''),
                 tags_get := Inl (JsError (Some ''ECONNREFUSED'') ''connect ECONNREFUSED 127.0.0.1:11434'')\<rparr>"

definition w_nomodel :: world where
  "w_nomodel = w_ok\<lparr>tags_get := Inr \<lparr>tags_status = 200, tags_data = Some (Some [''llava:7b''])\<rparr>\<rparr>"

definition w_timeout :: world where
  "w_timeout = w_ok\<lparr>generate := (\<lambda>pl. Inl (JsError (Some ''ETIMEDOUT'') ''connect ETIMEDOUT 127.0.0.1:11434''))\<rparr>"

definition w_refused :: world where
  "w_refused = w_ok\<lparr>generate := (\<lambda>pl. Inl (JsError (Some ''ECONNREFUSED'') ''connect ECONNREFUSED 127.0.0.1:11434''))\<rparr>"

definition w_reset :: world where
  "w_reset = w_ok\<lparr>generate := (\<lambda>pl. Inl (JsError (Some ''ECONNRESET'') ''socket hang up''))\<rparr>"

definition w_empty :: world where
  "w_empty = w_ok\<lparr>generate := (\<lambda>pl. Inr \<lparr>gen_data = Some (Some [])\<rparr>)\<rparr>"

definition w_corrupt :: world where
  "w_corrupt = w_ok\<lparr>sharp_encode :=
       (\<lambda>maxWidth b. Inl (JsError None ''Input file contains unsupported image format'', Some []))\<rparr>"

definition w_elapsed :: world where
  "w_elapsed = w_ok\<lparr>generate := (\<lambda>pl. Inl axios_timeout_error)\<rparr>"

definition file_a :: upfile where
  "file_a = \<lparr>originalname = ''a.png'', path = ''uploads/1b9d.png'', size_bytes = 3\<rparr>"

definition file_b :: upfile where
  "file_b = \<lparr>originalname = ''b.png'', path = ''uploads/7c2e.png'', size_bytes = 3\<rparr>"

definition s_a :: sys where
  "s_a = \<lparr>files = [''uploads/1b9d.png'' \<mapsto> [137, 80, 78]], log = []\<rparr>"

definition s_ab :: sys where
  "s_ab = \<lparr>files = [''uploads/1b9d.png'' \<mapsto> [137, 80, 78], ''uploads/7c2e.png'' \<mapsto> [137, 80, 78]],
          log = []\<rparr>"

definition file_c :: upfile where
  "file_c = \<lparr>originalname = ''c.png'', path = ''uploads/e41f.png'', size_bytes = 3\<rparr>"

definition s_abc :: sys where
  "s_abc = \<lparr>files = [''uploads/1b9d.png'' \<mapsto> [137, 80, 78], ''uploads/7c2e.png'' \<mapsto> [137, 80, 78],
                      ''uploads/e41f.png'' \<mapsto> [137, 80, 78]],
           log = []\<rparr>"

definition ws_second_times_out :: "nat \<Rightarrow> world" where
  "ws_second_times_out i = (if i = 1 then w_timeout else w_ok)"

definition ws_all_down :: "nat \<Rightarrow> world" where
  "ws_all_down i = w_down"

definition ws_all_ok :: "nat \<Rightarrow> world" where
  "ws_all_ok i = w_ok"

section \<open>Properties\<close>

subsection \<open>The trace only grows\<close>

lemma posted_simps [simp]:
  "posted [] = []"
  "posted (GetTags # evs) = posted evs"
  "posted (SharpToFile a b # evs) = posted evs"
  "posted (ReadFile a # evs) = posted evs"
  "posted (PostGenerate pl # evs) = pl # posted evs"
  "posted (Unlink a # evs) = posted evs"
  "posted (evs @ evs') = posted evs @ posted evs'"
  by (simp_all add: posted_def)

lemma unlinked_simps [simp]:
  "unlinked [] = []"
  "unlinked (GetTags # evs) = unlinked evs"
  "unlinked (SharpToFile a b # evs) = unlinked evs"
  "unlinked (ReadFile a # evs) = unlinked evs"
  "unlinked (PostGenerate pl # evs) = unlinked evs"
  "unlinked (Unlink a # evs) = a # unlinked evs"
  "unlinked (evs @ evs') = unlinked evs @ unlinked evs'"
  by (simp_all add: unlinked_def)

lemma log_emit: "log (emit ev s) = log s @ [ev]"
  by (simp add: emit_def)

lemma files_emit: "files (emit ev s) = files s"
  by (simp add: emit_def)

lemma log_fs_unlink: "log (snd (fs_unlink w p s)) = log s @ [Unlink p]"
  by (simp add: fs_unlink_def emit_def split: option.splits)

lemma log_cleanupFile: "log (cleanupFile w p s) = log s @ [Unlink p]"
  by (simp add: cleanupFile_def log_fs_unlink)

lemma snd_checkOllamaHealth: "snd (checkOllamaHealth w s) = emit GetTags s"
  by (simp add: checkOllamaHealth_def split: sum.splits)

lemma snd_checkModelAvailability: "snd (checkModelAvailability w m s) = emit GetTags s"
  by (simp add: checkModelAvailability_def split: sum.splits option.splits)

lemma fst_checkOllamaHealth: "fst (checkOllamaHealth w s) = fst (checkOllamaHealth w s')"
  by (simp add: checkOllamaHealth_def split: sum.splits)

lemma fst_checkModelAvailability:
  "fst (checkModelAvailability w m s) = fst (checkModelAvailability w m s')"
  by (simp add: checkModelAvailability_def split: sum.splits option.splits)

lemma log_optimizeImage: "log (snd (optimizeImage w i out s)) = log s @ [SharpToFile i out]"
  by (simp add: optimizeImage_def sharp_toFile_def emit_def
      split: sum.splits option.splits prod.splits)

lemma log_convertImageToBase64: "log (snd (convertImageToBase64 w p s)) = log s @ [ReadFile p]"
  by (simp add: convertImageToBase64_def fs_readFile_def emit_def split: sum.splits option.splits)

subsection \<open>The guards before the generate call\<close>

text \<open>
  Claim C2. When the liveness check returns false, \<open>callGemma3Vision\<close> throws the error
  of the liveness guard (the backend is not running) and its only call to the outside
  is the liveness request: the generate call is never issued and no file is touched.
  When the backend is alive and the model check returns false, it throws the error of
  the model guard (model not found) after the two checks, again without the generate
  call. The source has a single class of errors, told apart by their messages; the
  \<open>catch\<close> block puts \<open>Gemma3 analysis failed:\<close> in front of both messages.
\<close>

theorem C2_checks_short_circuit:
  "(\<not> fst (checkOllamaHealth w s) \<longrightarrow>
      fst (callGemma3Vision pe w imagePath prompt s) =
        Inl (new_Error ''Gemma3 analysis failed: Ollama server is not running. Please start Ollama with: ollama serve'')
      \<and> log (snd (callGemma3Vision pe w imagePath prompt s)) = log s @ [GetTags]
      \<and> files (snd (callGemma3Vision pe w imagePath prompt s)) = files s)
   \<and> (fst (checkOllamaHealth w s) \<and> \<not> fst (checkModelAvailability w (GEMMA_MODEL pe) s) \<longrightarrow>
      fst (callGemma3Vision pe w imagePath prompt s) =
        Inl (new_Error (''Gemma3 analysis failed: Model '' @ GEMMA_MODEL pe
                @ '' not found. Please install with: ollama pull '' @ GEMMA_MODEL pe))
      \<and> log (snd (callGemma3Vision pe w imagePath prompt s)) = log s @ [GetTags, GetTags]
      \<and> files (snd (callGemma3Vision pe w imagePath prompt s)) = files s)"
proof -
  obtain h s1 where h: "checkOllamaHealth w s = (h, s1)" by fastforce
  obtain a s2 where a: "checkModelAvailability w (GEMMA_MODEL pe) s1 = (a, s2)" by fastforce
  have s1: "s1 = emit GetTags s" using snd_checkOllamaHealth[of w s] h by simp
  have s2: "s2 = emit GetTags (emit GetTags s)"
    using snd_checkModelAvailability[of w "GEMMA_MODEL pe" s1] a s1 by simp
  have a': "fst (checkModelAvailability w (GEMMA_MODEL pe) s) = a"
    using fst_checkModelAvailability[of w "GEMMA_MODEL pe" s s1] a by simp
  show ?thesis
    using h a s1 s2 a'
    by (simp add: callGemma3Vision_def callGemma3Vision_try_def callGemma3Vision_catch_def
        new_Error_def log_emit files_emit)
qed

theorem C2_checks_short_circuit_witness:
  "\<not> fst (checkOllamaHealth w_down s_a)
   \<and> fst (callGemma3Vision pe0 w_down ''uploads/1b9d.png'' DEFAULT_PROMPT s_a) =
        Inl (JsError None ''Gemma3 analysis failed: Ollama server is not running. Please start Ollama with: ollama serve'')
   \<and> posted (log (snd (callGemma3Vision pe0 w_down ''uploads/1b9d.png'' DEFAULT_PROMPT s_a))) = []
   \<and> fst (checkOllamaHealth w_nomodel s_a)
   \<and> \<not> fst (checkModelAvailability w_nomodel (GEMMA_MODEL pe0) s_a)
   \<and> fst (callGemma3Vision pe0 w_nomodel ''uploads/1b9d.png'' DEFAULT_PROMPT s_a) =
        Inl (JsError None ''Gemma3 analysis failed: Model gemma3:4b not found. Please install with: ollama pull gemma3:4b'')
   \<and> posted (log (snd (callGemma3Vision pe0 w_nomodel ''uploads/1b9d.png'' DEFAULT_PROMPT s_a))) = []"
proof -
  have d: "\<not> fst (checkOllamaHealth w_down s_a)"
    by (simp add: checkOllamaHealth_def w_down_def w_ok_def)
  have n: "fst (checkOllamaHealth w_nomodel s_a)
      \<and> \<not> fst (checkModelAvailability w_nomodel (GEMMA_MODEL pe0) s_a)"
    by (simp add: checkOllamaHealth_def checkModelAvailability_def w_nomodel_def w_ok_def
        tags_ok_def GEMMA_MODEL_def pe0_def or_default_def split_colon_head_def)
  show ?thesis
    using d n
      C2_checks_short_circuit [of w_down s_a pe0 "''uploads/1b9d.png''" DEFAULT_PROMPT]
      C2_checks_short_circuit [of w_nomodel s_a pe0 "''uploads/1b9d.png''" DEFAULT_PROMPT]
    by (simp add: new_Error_def GEMMA_MODEL_def pe0_def or_default_def s_a_def)
qed

subsection \<open>Unfolding the definitions on concrete runs\<close>

lemmas run_defs = analyze_image_def callGemma3Vision_def callGemma3Vision_try_def
  callGemma3Vision_catch_def checkOllamaHealth_def checkModelAvailability_def optimizeImage_def
  sharp_toFile_def convertImageToBase64_def fs_readFile_def fs_unlink_def cleanupFile_def
  axios_post_generate_def generate_payload_def response_text_def emit_def new_Error_def
  or_default_def GEMMA_MODEL_def DEFAULT_PROMPT_def split_colon_head_def enoent_def
  batch_item_def batch_analyze_def batch_analyze_try_def

lemmas world_defs = pe0_def tags_ok_def w_ok_def w_down_def w_nomodel_def w_timeout_def
  w_refused_def w_reset_def w_empty_def w_corrupt_def w_elapsed_def axios_timeout_error_def
  file_a_def file_b_def s_a_def s_ab_def

lemmas world2_defs = file_c_def s_abc_def ws_second_times_out_def

subsection \<open>The model check\<close>

lemma str_includes_sublist: "str_includes name t = sublist t name"
  by (induction name) (auto simp: sublist_Cons_right)

text \<open>
  Claim C8, as amended. \<open>checkModelAvailability\<close> returns true exactly when the request
  for the listing succeeds and the base name of the requested model (the characters
  before its first colon) occurs somewhere inside the name of a listed model, as a run
  of consecutive characters: \<open>includes\<close> looks anywhere in the name, not only at its
  start. A failed request, a response without data and a listing without models give
  false; the function has no error in its result.
\<close>

theorem C8_model_matching:
  "fst (checkModelAvailability w modelName s) =
     (case tags_get w of
        Inl e \<Rightarrow> False
      | Inr response \<Rightarrow>
          (case tags_data response of
             None \<Rightarrow> False
           | Some None \<Rightarrow> False
           | Some (Some names) \<Rightarrow>
               (\<exists>name \<in> set names. sublist (takeWhile (\<lambda>c. c \<noteq> CHR '':'') modelName) name)))"
  by (auto simp: checkModelAvailability_def split_colon_head_def str_includes_sublist list_ex_iff
      split: sum.splits option.splits)

theorem C8_model_matching_witness:
  "fst (checkModelAvailability w_ok ''gemma3:4b'' s_a)
   \<and> sublist ''gemma3'' ''gemma3:4b''
   \<and> \<not> fst (checkModelAvailability w_nomodel ''gemma3:4b'' s_a)
   \<and> \<not> fst (checkModelAvailability w_down ''gemma3:4b'' s_a)"
proof -
  have a: "sublist ''gemma3'' ''gemma3:4b''" by (simp add: sublist_code(3))
  have b: "\<not> sublist ''gemma3'' ''llava:7b''" by (simp add: sublist_code(3))
  show ?thesis
    using a b
      C8_model_matching [of w_ok "''gemma3:4b''" s_a]
      C8_model_matching [of w_nomodel "''gemma3:4b''" s_a]
      C8_model_matching [of w_down "''gemma3:4b''" s_a]
    by (simp add: w_ok_def w_nomodel_def w_down_def tags_ok_def)
qed

text \<open>
  Claim C8 as stated fails: the listing holds one model, \<open>my-gemma3-ft:latest\<close>, of
  which \<open>gemma3\<close> is no prefix, and the check for \<open>gemma3:4b\<close> returns true.
\<close>

theorem C8_prefix_counterexample:
  "fst (checkModelAvailability
          (w_ok\<lparr>tags_get := Inr \<lparr>tags_status = 200, tags_data = Some (Some [''my-gemma3-ft:latest''])\<rparr>\<rparr>)
          ''gemma3:4b'' s_a)
   \<and> \<not> prefix ''gemma3'' ''my-gemma3-ft:latest''"
  by (simp add: checkModelAvailability_def split_colon_head_def w_ok_def)

subsection \<open>Past the guards\<close>

lemma try_after_guards:
  assumes "fst (checkOllamaHealth w s)" and "fst (checkModelAvailability w (GEMMA_MODEL pe) s)"
  shows "callGemma3Vision_try pe w ip pr s =
     (case optimizeImage w ip (ip @ ''_optimized.jpg'') (emit GetTags (emit GetTags s)) of (finalImagePath, s3) \<Rightarrow>
     (case convertImageToBase64 w finalImagePath s3 of
        (Inl e, s4) \<Rightarrow> (Inl e, s4)
      | (Inr imageBase64, s4) \<Rightarrow>
     (case axios_post_generate w (generate_payload pe pr imageBase64) s4 of
        (Inl e, s5) \<Rightarrow> (Inl e, s5)
      | (Inr response, s5) \<Rightarrow>
          (let s6 = (if finalImagePath \<noteq> ip then snd (fs_unlink w finalImagePath s5) else s5)
           in case response_text response of
                Some t \<Rightarrow> (Inr t, s6)
              | None \<Rightarrow> (Inl (new_Error ''Invalid response from Ollama''), s6)))))"
proof -
  obtain h s1 where h: "checkOllamaHealth w s = (h, s1)" by fastforce
  obtain a s2 where a: "checkModelAvailability w (GEMMA_MODEL pe) s1 = (a, s2)" by fastforce
  have s1: "s1 = emit GetTags s" using snd_checkOllamaHealth[of w s] h by simp
  have s2: "s2 = emit GetTags (emit GetTags s)"
    using snd_checkModelAvailability[of w "GEMMA_MODEL pe" s1] a s1 by simp
  have a': "a" using fst_checkModelAvailability[of w "GEMMA_MODEL pe" s s1] a assms by simp
  have h': "h" using h assms by simp
  show ?thesis
    unfolding callGemma3Vision_try_def using h a s1 s2 a' h' by simp
qed

lemma optimize_fails:
  assumes "files s ip = Some b" and "sharp_encode w 1024 b = Inl (e, left)"
  shows "optimizeImage w ip out s =
           (ip, emit (SharpToFile ip out)
                  (case left of
                     None \<Rightarrow> s
                   | Some part \<Rightarrow> s\<lparr>files := (files s)(out \<mapsto> part)\<rparr>))"
  using assms by (simp add: optimizeImage_def sharp_toFile_def)

lemma files_after_failed_encoder:
  assumes "files s ip = Some b"
  shows "files (emit (SharpToFile ip (ip @ ''_optimized.jpg''))
                 (case left of
                    None \<Rightarrow> s
                  | Some part \<Rightarrow> s\<lparr>files := (files s)(ip @ ''_optimized.jpg'' \<mapsto> part)\<rparr>)) ip
           = Some b"
  using assms by (cases left) (simp_all add: emit_def)

lemma optimize_succeeds:
  assumes "files s ip = Some b" and "sharp_encode w 1024 b = Inr jpeg"
  shows "optimizeImage w ip out s = (out, emit (SharpToFile ip out) (s\<lparr>files := (files s)(out \<mapsto> jpeg)\<rparr>))"
  using assms by (simp add: optimizeImage_def sharp_toFile_def)

lemma convert_reads:
  assumes "files s p = Some b" and "read_fault w p = None"
  shows "convertImageToBase64 w p s = (Inr (base64 w b), emit (ReadFile p) s)"
  using assms by (simp add: convertImageToBase64_def fs_readFile_def)

lemma fst_try_reached:
  assumes "fst (checkOllamaHealth w s)" and "fst (checkModelAvailability w (GEMMA_MODEL pe) s)"
    and "files s ip = Some b"
    and "read_fault w ip = None" and "read_fault w (ip @ ''_optimized.jpg'') = None"
  shows "fst (callGemma3Vision_try pe w ip pr s) =
     (case generate w (generate_payload pe pr
                        (base64 w (case sharp_encode w 1024 b of Inl e \<Rightarrow> b | Inr jpeg \<Rightarrow> jpeg))) of
        Inl e \<Rightarrow> Inl e
      | Inr response \<Rightarrow>
          (case response_text response of
             Some t \<Rightarrow> Inr t
           | None \<Rightarrow> Inl (new_Error ''Invalid response from Ollama'')))"
proof (cases "sharp_encode w 1024 b")
  case (Inl el)
  obtain e left where el: "el = (e, left)" by (cases el)
  have enc: "sharp_encode w 1024 b = Inl (e, left)" using Inl el by simp
  have f: "files (emit GetTags (emit GetTags s)) ip = Some b" using assms(3) by (simp add: files_emit)
  note f2 = files_after_failed_encoder[OF f, of left]
  show ?thesis
    using enc assms(4)
    by (simp add: try_after_guards[OF assms(1,2)] optimize_fails[OF f enc] convert_reads[OF f2 assms(4)]
        axios_post_generate_def split: sum.splits option.splits)
next
  case (Inr jpeg)
  let ?out = "ip @ ''_optimized.jpg''"
  have f: "files (emit GetTags (emit GetTags s)) ip = Some b" using assms(3) by (simp add: files_emit)
  have f2: "files (emit (SharpToFile ip ?out)
            ((emit GetTags (emit GetTags s))\<lparr>files := (files (emit GetTags (emit GetTags s)))(?out \<mapsto> jpeg)\<rparr>)) ?out
          = Some jpeg"
    by (simp add: emit_def)
  show ?thesis
    using Inr
    by (simp add: try_after_guards[OF assms(1,2)] optimize_succeeds[OF f Inr] convert_reads[OF f2 assms(5)]
        axios_post_generate_def Let_def split: sum.splits option.splits)
qed

lemma catch_new_Error:
  "callGemma3Vision_catch (new_Error m) = new_Error (''Gemma3 analysis failed: '' @ m)"
  by (simp add: callGemma3Vision_catch_def new_Error_def)

text \<open>
  Claim C5. When the encoder fails, for whatever reason, \<open>optimizeImage\<close> returns the
  path it was given and throws nothing. In \<open>callGemma3Vision\<close>, with the backend
  alive, the model listed and the upload readable, a failure of the encoder is followed
  by the read of the upload itself and by the generate call on the bytes of the upload;
  the result is the one the answer of the backend decides, and the error of the encoder
  appears nowhere in it.
\<close>

theorem C5_preprocessing_fallback:
  "(fst (sharp_toFile w inputPath 1024 outputPath s) = Inl e \<longrightarrow>
      fst (optimizeImage w inputPath outputPath s) = inputPath)
   \<and> (fst (checkOllamaHealth w s) \<and> fst (checkModelAvailability w (GEMMA_MODEL pe) s)
        \<and> files s imagePath = Some b \<and> sharp_encode w 1024 b = Inl (e, left)
        \<and> read_fault w imagePath = None \<longrightarrow>
      fst (callGemma3Vision pe w imagePath prompt s) =
        (case generate w (generate_payload pe prompt (base64 w b)) of
           Inl e' \<Rightarrow> Inl (callGemma3Vision_catch e')
         | Inr response \<Rightarrow>
             (case response_text response of
                Some t \<Rightarrow> Inr t
              | None \<Rightarrow> Inl (new_Error ''Gemma3 analysis failed: Invalid response from Ollama'')))
      \<and> log (snd (callGemma3Vision pe w imagePath prompt s)) =
          log s @ [GetTags, GetTags,
                   SharpToFile imagePath (imagePath @ ''_optimized.jpg''),
                   ReadFile imagePath,
                   PostGenerate (generate_payload pe prompt (base64 w b))])"
proof (intro conjI impI)
  assume "fst (sharp_toFile w inputPath 1024 outputPath s) = Inl e"
  then show "fst (optimizeImage w inputPath outputPath s) = inputPath"
    by (cases "sharp_toFile w inputPath 1024 outputPath s") (auto simp: optimizeImage_def)
next
  assume a: "fst (checkOllamaHealth w s) \<and> fst (checkModelAvailability w (GEMMA_MODEL pe) s)
        \<and> files s imagePath = Some b \<and> sharp_encode w 1024 b = Inl (e, left)
        \<and> read_fault w imagePath = None"
  let ?out = "imagePath @ ''_optimized.jpg''"
  let ?s2 = "emit GetTags (emit GetTags s)"
  let ?s3 = "emit (SharpToFile imagePath ?out)
               (case left of
                  None \<Rightarrow> ?s2
                | Some part \<Rightarrow> ?s2\<lparr>files := (files ?s2)(?out \<mapsto> part)\<rparr>)"
  have f: "files ?s2 imagePath = Some b" using a by (simp add: files_emit)
  note f2 = files_after_failed_encoder[OF f, of left]
  have enc: "sharp_encode w 1024 b = Inl (e, left)" and r: "read_fault w imagePath = None"
    and h: "fst (checkOllamaHealth w s)" and m: "fst (checkModelAvailability w (GEMMA_MODEL pe) s)"
    using a by simp_all
  have t: "callGemma3Vision_try pe w imagePath prompt s =
      (case generate w (generate_payload pe prompt (base64 w b)) of
         Inl e' \<Rightarrow> Inl e'
       | Inr response \<Rightarrow>
           (case response_text response of
              Some t \<Rightarrow> Inr t
            | None \<Rightarrow> Inl (new_Error ''Invalid response from Ollama'')),
       emit (PostGenerate (generate_payload pe prompt (base64 w b))) (emit (ReadFile imagePath) ?s3))"
    by (simp add: try_after_guards[OF h m] optimize_fails[OF f enc] convert_reads[OF f2 r]
        axios_post_generate_def split: sum.splits option.splits)
  have l3: "log ?s3 = log s @ [GetTags, GetTags, SharpToFile imagePath ?out]"
    by (cases left) (simp_all add: emit_def)
  show "fst (callGemma3Vision pe w imagePath prompt s) =
        (case generate w (generate_payload pe prompt (base64 w b)) of
           Inl e' \<Rightarrow> Inl (callGemma3Vision_catch e')
         | Inr response \<Rightarrow>
             (case response_text response of
                Some t \<Rightarrow> Inr t
              | None \<Rightarrow> Inl (new_Error ''Gemma3 analysis failed: Invalid response from Ollama'')))"
    unfolding callGemma3Vision_def t
    by (simp add: catch_new_Error split: sum.splits option.splits)
  show "log (snd (callGemma3Vision pe w imagePath prompt s)) =
          log s @ [GetTags, GetTags,
                   SharpToFile imagePath (imagePath @ ''_optimized.jpg''),
                   ReadFile imagePath,
                   PostGenerate (generate_payload pe prompt (base64 w b))]"
    unfolding callGemma3Vision_def t
    by (simp add: log_emit l3 split: sum.splits option.splits)
qed

theorem C5_preprocessing_fallback_witness:
  "fst (sharp_toFile w_corrupt ''uploads/1b9d.png'' 1024 ''uploads/1b9d.png_optimized.jpg'' s_a)
     = Inl (JsError None ''Input file contains unsupported image format'')
   \<and> fst (optimizeImage w_corrupt ''uploads/1b9d.png'' ''uploads/1b9d.png_optimized.jpg'' s_a)
     = ''uploads/1b9d.png''
   \<and> fst (checkOllamaHealth w_corrupt s_a)
   \<and> fst (checkModelAvailability w_corrupt (GEMMA_MODEL pe0) s_a)
   \<and> files s_a ''uploads/1b9d.png'' = Some [137, 80, 78]
   \<and> fst (callGemma3Vision pe0 w_corrupt ''uploads/1b9d.png'' DEFAULT_PROMPT s_a) = Inr ''A cat on a sofa.''
   \<and> map pl_images (posted (log (snd (callGemma3Vision pe0 w_corrupt ''uploads/1b9d.png'' DEFAULT_PROMPT s_a))))
     = [[base64 w_corrupt [137, 80, 78]]]"
proof -
  have h: "fst (sharp_toFile w_corrupt ''uploads/1b9d.png'' 1024 ''uploads/1b9d.png_optimized.jpg'' s_a)
     = Inl (JsError None ''Input file contains unsupported image format'')"
    by (simp add: sharp_toFile_def w_corrupt_def w_ok_def s_a_def)
  have g: "fst (checkOllamaHealth w_corrupt s_a) \<and> fst (checkModelAvailability w_corrupt (GEMMA_MODEL pe0) s_a)
     \<and> files s_a ''uploads/1b9d.png'' = Some [137, 80, 78]
     \<and> sharp_encode w_corrupt 1024 [137, 80, 78]
         = Inl (JsError None ''Input file contains unsupported image format'', Some [])
     \<and> read_fault w_corrupt ''uploads/1b9d.png'' = None"
    by (simp add: checkOllamaHealth_def checkModelAvailability_def w_corrupt_def w_ok_def tags_ok_def
        s_a_def GEMMA_MODEL_def pe0_def or_default_def split_colon_head_def)
  note T = C5_preprocessing_fallback [of w_corrupt "''uploads/1b9d.png''" "''uploads/1b9d.png_optimized.jpg''"
        s_a "JsError None ''Input file contains unsupported image format''" pe0 "''uploads/1b9d.png''"
        "[137, 80, 78]" "Some []" DEFAULT_PROMPT]
  have o: "fst (optimizeImage w_corrupt ''uploads/1b9d.png'' ''uploads/1b9d.png_optimized.jpg'' s_a)
     = ''uploads/1b9d.png''"
    using T h by blast
  have gen: "generate w_corrupt (generate_payload pe0 DEFAULT_PROMPT (base64 w_corrupt [137, 80, 78]))
     = Inr \<lparr>gen_data = Some (Some ''A cat on a sofa.'')\<rparr>"
    by (simp add: w_corrupt_def w_ok_def)
  have c: "fst (callGemma3Vision pe0 w_corrupt ''uploads/1b9d.png'' DEFAULT_PROMPT s_a)
        = Inr ''A cat on a sofa.''
      \<and> log (snd (callGemma3Vision pe0 w_corrupt ''uploads/1b9d.png'' DEFAULT_PROMPT s_a)) =
          log s_a @ [GetTags, GetTags,
                     SharpToFile ''uploads/1b9d.png'' (''uploads/1b9d.png'' @ ''_optimized.jpg''),
                     ReadFile ''uploads/1b9d.png'',
                     PostGenerate (generate_payload pe0 DEFAULT_PROMPT (base64 w_corrupt [137, 80, 78]))]"
    using T g by (simp add: gen response_text_def)
  show ?thesis
    using h g o c by (simp add: generate_payload_def s_a_def)
qed

text \<open>
  What the failed encoder has left at the output path is not removed: the path that
  \<open>optimizeImage\<close> returns is the upload, so \<open>callGemma3Vision\<close> unlinks nothing.
\<close>

lemma failed_encoder_leaves_its_file:
  "files (snd (analyze_image pe0 w_corrupt ''2025-01-01T00:00:00.000Z'' (Some file_a) None s_a))
     ''uploads/1b9d.png_optimized.jpg'' = Some []
   \<and> unlinked (log (snd (analyze_image pe0 w_corrupt ''2025-01-01T00:00:00.000Z'' (Some file_a) None s_a)))
       = [''uploads/1b9d.png'']"
  by (simp add: run_defs world_defs)

subsection \<open>The errors of the inference call\<close>

text \<open>
  Once the two guards have passed and the image has been read, the error that the
  generate call throws decides the message: code \<open>ECONNREFUSED\<close> and code
  \<open>ETIMEDOUT\<close> have their own messages, an answer without a text or with an empty one
  gives the invalid-response message, and any other error gives its own message after
  \<open>Gemma3 analysis failed:\<close>.
\<close>

lemma error_messages_after_guards:
  assumes "fst (checkOllamaHealth w s)" and "fst (checkModelAvailability w (GEMMA_MODEL pe) s)"
    and "files s imagePath = Some b"
    and "read_fault w imagePath = None" and "read_fault w (imagePath @ ''_optimized.jpg'') = None"
    and "pl = generate_payload pe prompt
                (base64 w (case sharp_encode w 1024 b of Inl e \<Rightarrow> b | Inr jpeg \<Rightarrow> jpeg))"
  shows "(\<forall>e. generate w pl = Inl e \<and> code e = Some ''ECONNREFUSED'' \<longrightarrow>
            fst (callGemma3Vision pe w imagePath prompt s) =
              Inl (new_Error ''Cannot connect to Ollama. Make sure Ollama is running on port 11434''))
       \<and> (\<forall>e. generate w pl = Inl e \<and> code e = Some ''ETIMEDOUT'' \<longrightarrow>
            fst (callGemma3Vision pe w imagePath prompt s) =
              Inl (new_Error ''Analysis timed out. Try with a smaller image or simpler prompt''))
       \<and> (\<forall>response. generate w pl = Inr response \<and> response_text response = None \<longrightarrow>
            fst (callGemma3Vision pe w imagePath prompt s) =
              Inl (new_Error ''Gemma3 analysis failed: Invalid response from Ollama''))
       \<and> (\<forall>e. generate w pl = Inl e \<and> code e \<noteq> Some ''ECONNREFUSED'' \<and> code e \<noteq> Some ''ETIMEDOUT'' \<longrightarrow>
            fst (callGemma3Vision pe w imagePath prompt s) =
              Inl (new_Error (''Gemma3 analysis failed: '' @ message e)))"
proof -
  have c: "fst (callGemma3Vision pe w imagePath prompt s) =
      (case fst (callGemma3Vision_try pe w imagePath prompt s) of
         Inr t \<Rightarrow> Inr t | Inl e \<Rightarrow> Inl (callGemma3Vision_catch e))"
    by (simp add: callGemma3Vision_def split: prod.splits sum.splits)
  show ?thesis
    unfolding c fst_try_reached[OF assms(1-5)] assms(6)[symmetric]
    by (auto simp: callGemma3Vision_catch_def new_Error_def)
qed

lemma error_messages_runs:
  "fst (callGemma3Vision pe0 w_refused ''uploads/1b9d.png'' DEFAULT_PROMPT s_a) =
        Inl (JsError None ''Cannot connect to Ollama. Make sure Ollama is running on port 11434'')
   \<and> fst (callGemma3Vision pe0 w_timeout ''uploads/1b9d.png'' DEFAULT_PROMPT s_a) =
        Inl (JsError None ''Analysis timed out. Try with a smaller image or simpler prompt'')
   \<and> fst (callGemma3Vision pe0 w_empty ''uploads/1b9d.png'' DEFAULT_PROMPT s_a) =
        Inl (JsError None ''Gemma3 analysis failed: Invalid response from Ollama'')
   \<and> fst (callGemma3Vision pe0 w_reset ''uploads/1b9d.png'' DEFAULT_PROMPT s_a) =
        Inl (JsError None ''Gemma3 analysis failed: socket hang up'')"
  by (simp add: run_defs world_defs)

text \<open>
  Claim C6 at one input: the backend is alive and lists the model, the image is read,
  and the generate call does not answer within its timeout of 120 seconds. The error
  of axios has code \<open>ECONNABORTED\<close>, which the \<open>catch\<close> block does not test for (it
  tests for \<open>ETIMEDOUT\<close>), so the message thrown is the wrapped message of axios and
  not the one that says the analysis timed out.
\<close>

theorem C6_elapsed_timeout_not_mapped:
  "generate w_elapsed (generate_payload pe0 DEFAULT_PROMPT ''/9j/'')
     = Inl (JsError (Some ''ECONNABORTED'') ''timeout of 120000ms exceeded'')
   \<and> fst (callGemma3Vision pe0 w_elapsed ''uploads/1b9d.png'' DEFAULT_PROMPT s_a)
     = Inl (JsError None ''Gemma3 analysis failed: timeout of 120000ms exceeded'')
   \<and> fst (callGemma3Vision pe0 w_elapsed ''uploads/1b9d.png'' DEFAULT_PROMPT s_a)
     \<noteq> Inl (JsError None ''Analysis timed out. Try with a smaller image or simpler prompt'')
   \<and> posted (log (snd (callGemma3Vision pe0 w_elapsed ''uploads/1b9d.png'' DEFAULT_PROMPT s_a)))
     = [generate_payload pe0 DEFAULT_PROMPT ''/9j/'']"
  by (simp add: run_defs world_defs)

subsection \<open>The files left on disk\<close>

text \<open>
  Claim C1 at one input: the upload is on disk, the encoder writes the optimized copy
  and the generate call times out. The route answers 500 and deletes the upload, and
  the optimized copy is still on disk: the only unlink call is the one for the upload.
\<close>

theorem C1_optimized_copy_left_behind:
  "fst (analyze_image pe0 w_timeout ''2025-01-01T00:00:00.000Z'' (Some file_a) None s_a) =
     Response 500 (ErrorAt ''Analysis timed out. Try with a smaller image or simpler prompt''
                     ''2025-01-01T00:00:00.000Z'')
   \<and> files (snd (analyze_image pe0 w_timeout ''2025-01-01T00:00:00.000Z'' (Some file_a) None s_a))
         ''uploads/1b9d.png_optimized.jpg'' = Some [255, 216, 255]
   \<and> files (snd (analyze_image pe0 w_timeout ''2025-01-01T00:00:00.000Z'' (Some file_a) None s_a))
         ''uploads/1b9d.png'' = None
   \<and> unlinked (log (snd (analyze_image pe0 w_timeout ''2025-01-01T00:00:00.000Z'' (Some file_a) None s_a)))
       = [''uploads/1b9d.png'']"
  by (simp add: run_defs world_defs)

subsection \<open>The batch loop\<close>

lemma log_try:
  "\<exists>evs. log (snd (callGemma3Vision_try pe w ip pr s)) = log s @ evs
      \<and> (\<forall>pl \<in> set (posted evs). pl_prompt pl = pr)"
proof -
  obtain h s1 where h: "checkOllamaHealth w s = (h, s1)" by fastforce
  obtain a s2 where a: "checkModelAvailability w (GEMMA_MODEL pe) s1 = (a, s2)" by fastforce
  obtain f s3 where f: "optimizeImage w ip (ip @ ''_optimized.jpg'') s2 = (f, s3)" by fastforce
  obtain c s4 where c: "convertImageToBase64 w f s3 = (c, s4)" by fastforce
  have l1: "log s1 = log s @ [GetTags]"
    using snd_checkOllamaHealth[of w s] h by (simp add: log_emit)
  have l2: "log s2 = log s @ [GetTags, GetTags]"
    using snd_checkModelAvailability[of w "GEMMA_MODEL pe" s1] a l1 by (simp add: log_emit)
  have l3: "log s3 = log s @ [GetTags, GetTags, SharpToFile ip (ip @ ''_optimized.jpg'')]"
    using log_optimizeImage[of w ip "ip @ ''_optimized.jpg''" s2] f l2 by simp
  have l4: "log s4 = log s @ [GetTags, GetTags, SharpToFile ip (ip @ ''_optimized.jpg''), ReadFile f]"
    using log_convertImageToBase64[of w f s3] c l3 by simp
  let ?s' = "snd (callGemma3Vision_try pe w ip pr s)"
  have "log ?s' = log s @ drop (length (log s)) (log ?s')
      \<and> (\<forall>pl \<in> set (posted (drop (length (log s)) (log ?s'))). pl_prompt pl = pr)"
    using h a f c l1 l2 l3 l4
    by (simp add: callGemma3Vision_try_def axios_post_generate_def log_emit log_fs_unlink
        generate_payload_def Let_def split: sum.splits option.splits)
  then show ?thesis by blast
qed

lemma log_call:
  "\<exists>evs. log (snd (callGemma3Vision pe w ip pr s)) = log s @ evs
      \<and> (\<forall>pl \<in> set (posted evs). pl_prompt pl = pr)"
  using log_try[of pe w ip pr s]
  by (auto simp: callGemma3Vision_def split: prod.splits sum.splits)

lemma batch_item_cases:
  "batch_item pe w pr x rs s =
     (case callGemma3Vision pe w (path x) pr s of
        (Inr t, s1) \<Rightarrow>
          (rs @ [Succeeded (originalname x) t (elapsed w @ ''s'') (size_bytes x)],
           cleanupFile w (path x) s1)
      | (Inl e, s1) \<Rightarrow>
          (rs @ [Failed (originalname x) (message e)], cleanupFile w (path x) s1))"
  by (simp add: batch_item_def)

lemma log_batch_item:
  "\<exists>evs. log (snd (batch_item pe w pr x rs s)) = log s @ evs
      \<and> (\<forall>pl \<in> set (posted evs). pl_prompt pl = pr)"
proof -
  obtain r s1 where c: "callGemma3Vision pe w (path x) pr s = (r, s1)" by fastforce
  obtain evs where e: "log s1 = log s @ evs" "\<forall>pl \<in> set (posted evs). pl_prompt pl = pr"
    using log_call[of pe w "path x" pr s] c by auto
  have "log (snd (batch_item pe w pr x rs s)) = log s @ (evs @ [Unlink (path x)])"
    using c e by (cases r) (simp_all add: batch_item_cases log_cleanupFile)
  moreover have "\<forall>pl \<in> set (posted (evs @ [Unlink (path x)])). pl_prompt pl = pr"
    using e by simp
  ultimately show ?thesis by blast
qed

lemma log_batch_loop:
  "\<exists>evs. log (snd (batch_loop pe ws pr i xs rs s)) = log s @ evs
      \<and> (\<forall>pl \<in> set (posted evs). pl_prompt pl = pr)"
proof (induction xs arbitrary: i rs s)
  case Nil
  then show ?case by simp
next
  case (Cons x rest)
  obtain rs1 s1 where it: "batch_item pe (ws i) pr x rs s = (rs1, s1)" by fastforce
  obtain evs1 where e1: "log s1 = log s @ evs1"
    "\<forall>pl \<in> set (posted evs1). pl_prompt pl = pr"
    using log_batch_item[of pe "ws i" pr x rs s] it by auto
  obtain evs2 where e2: "log (snd (batch_loop pe ws pr (Suc i) rest rs1 s1)) = log s1 @ evs2"
    "\<forall>pl \<in> set (posted evs2). pl_prompt pl = pr"
    using Cons.IH[of "Suc i" rs1 s1] by auto
  have "log (snd (batch_loop pe ws pr i (x # rest) rs s)) = log s @ (evs1 @ evs2)"
    using it e1 e2 by simp
  moreover have "\<forall>pl \<in> set (posted (evs1 @ evs2)). pl_prompt pl = pr"
    using e1 e2 by auto
  ultimately show ?case by blast
qed

lemma batch_item_results:
  "\<exists>r. fst (batch_item pe w pr x rs s) = rs @ [r] \<and> out_filename r = originalname x"
  by (auto simp: batch_item_def split: prod.splits sum.splits)

lemma batch_loop_results:
  "\<exists>new. fst (batch_loop pe ws pr i xs rs s) = rs @ new
      \<and> map out_filename new = map originalname xs"
proof (induction xs arbitrary: i rs s)
  case Nil
  then show ?case by simp
next
  case (Cons x rest)
  obtain rs1 s1 where it: "batch_item pe (ws i) pr x rs s = (rs1, s1)" by fastforce
  obtain r where r: "rs1 = rs @ [r]" "out_filename r = originalname x"
    using batch_item_results[of pe "ws i" pr x rs s] it by auto
  obtain new where n: "fst (batch_loop pe ws pr (Suc i) rest rs1 s1) = rs1 @ new"
    "map out_filename new = map originalname rest"
    using Cons.IH[of "Suc i" rs1 s1] by auto
  have "fst (batch_loop pe ws pr i (x # rest) rs s) = rs @ (r # new)"
    using it r n by simp
  moreover have "map out_filename (r # new) = map originalname (x # rest)"
    using r n by simp
  ultimately show ?case by blast
qed

lemma batch_loop_append:
  "batch_loop pe ws pr i (xs @ ys) rs s =
     (case batch_loop pe ws pr i xs rs s of
        (rs1, s1) \<Rightarrow> batch_loop pe ws pr (i + length xs) ys rs1 s1)"
  by (induction xs arbitrary: i rs s) (auto split: prod.splits)

lemma filter_success_count:
  "length (filter success rs) + length (filter (\<lambda>r. \<not> success r) rs) = length rs"
  by (induction rs) auto

lemma batch_item_failed:
  assumes "callGemma3Vision pe w (path x) pr s = (Inl e, s2)"
  shows "batch_item pe w pr x rs s =
           (rs @ [Failed (originalname x) (message e)], cleanupFile w (path x) s2)"
  using assms by (simp add: batch_item_def)

lemma files_cleanupFile:
  "unlink_fault w p = None \<Longrightarrow> files (cleanupFile w p s) p = None"
  by (simp add: cleanupFile_def fs_unlink_def emit_def split: option.splits)

lemma batch_loop_length:
  "length (fst (batch_loop pe ws pr i xs rs s)) = length rs + length xs"
proof -
  obtain new where "fst (batch_loop pe ws pr i xs rs s) = rs @ new"
    "map out_filename new = map originalname xs"
    using batch_loop_results[of pe ws pr i xs rs s] by auto
  then show ?thesis using length_map[of out_filename new] by simp
qed

lemma batch_loop_keeps:
  "take (length rs) (fst (batch_loop pe ws pr i xs rs s)) = rs"
proof -
  obtain new where "fst (batch_loop pe ws pr i xs rs s) = rs @ new"
    using batch_loop_results[of pe ws pr i xs rs s] by auto
  then show ?thesis by simp
qed

text \<open>
  Claim C3, as amended. For every list of \<open>N\<close> files that is not empty, the batch route
  answers with exactly \<open>N\<close> outcomes, the outcome at each position bearing the name of the
  file submitted at that position, and with counts in which \<open>total\<close> is \<open>N\<close>,
  \<open>successful\<close> is the number of outcomes that succeeded, \<open>failed\<close> is the number of
  those that failed, and \<open>successful + failed\<close> is \<open>N\<close>.
\<close>

theorem C3_batch_outcomes:
  assumes "uploadedFiles \<noteq> []"
  shows "\<exists>results.
      fst (batch_analyze pe ws wc now (Some uploadedFiles) req_prompt s) =
        Response 200
          (Batch True results
             \<lparr>total = length uploadedFiles,
              successful = length (filter success results),
              failed = length (filter (\<lambda>r. \<not> success r) results)\<rparr>
             now)
      \<and> length results = length uploadedFiles
      \<and> map out_filename results = map originalname uploadedFiles
      \<and> length (filter success results) + length (filter (\<lambda>r. \<not> success r) results)
          = length uploadedFiles"
proof -
  let ?pr = "or_default req_prompt DEFAULT_PROMPT"
  obtain results s1 where l: "batch_loop pe ws ?pr 0 uploadedFiles [] s = (results, s1)"
    by fastforce
  have m: "map out_filename results = map originalname uploadedFiles"
    using batch_loop_results[of pe ws ?pr 0 uploadedFiles "[]" s] l by simp
  then have n: "length results = length uploadedFiles"
    using length_map by metis
  have c: "length (filter success results) + length (filter (\<lambda>r. \<not> success r) results)
      = length uploadedFiles"
    using filter_success_count[of results] n by simp
  then have f: "length uploadedFiles - length (filter success results)
      = length (filter (\<lambda>r. \<not> success r) results)"
    by simp
  have "fst (batch_analyze pe ws wc now (Some uploadedFiles) req_prompt s) =
        Response 200
          (Batch True results
             \<lparr>total = length uploadedFiles,
              successful = length (filter success results),
              failed = length (filter (\<lambda>r. \<not> success r) results)\<rparr>
             now)"
    using assms l f by (simp add: batch_analyze_def batch_analyze_try_def Let_def)
  then show ?thesis using m n c by blast
qed

theorem C3_batch_outcomes_witness:
  "[file_a, file_b, file_c] \<noteq> []
   \<and> fst (batch_analyze pe0 ws_second_times_out w_ok ''2025-01-01T00:00:00.000Z''
            (Some [file_a, file_b, file_c]) None s_abc) =
       Response 200
         (Batch True
            [Succeeded ''a.png'' ''A cat on a sofa.'' ''1.2s'' 3,
             Failed ''b.png'' ''Analysis timed out. Try with a smaller image or simpler prompt'',
             Succeeded ''c.png'' ''A cat on a sofa.'' ''1.2s'' 3]
            \<lparr>total = 3, successful = 2, failed = 1\<rparr>
            ''2025-01-01T00:00:00.000Z'')"
  using C3_batch_outcomes [of "[file_a, file_b, file_c]" pe0 ws_second_times_out w_ok
      "''2025-01-01T00:00:00.000Z''" None s_abc]
  by (simp add: run_defs world_defs world2_defs)

text \<open>
  Claim C3 as stated fails for the empty list: the route answers 400 with an error and
  sends neither outcomes nor counts.
\<close>

theorem C3_empty_batch_counterexample:
  "fst (batch_analyze pe0 ws_all_ok w_ok ''2025-01-01T00:00:00.000Z'' (Some []) None s_a) =
     Response 400 (ErrorOnly ''No image files provided'')"
  by (simp add: batch_analyze_def batch_analyze_try_def)

text \<open>
  When the call for the file at some position of a batch throws, the turn of the loop
  appends a failed outcome with the name of the file and the message of the error, and
  the loop goes on with the files after it. The unlink of the upload is the last call
  of its turn, made from the state in which the call failed, so it comes before every
  call of the later turns; the upload is gone from the disk unless the unlink itself
  fails. The loop still returns one outcome for each file, and the outcome at the
  position of the file is the failed one.
\<close>

lemma batch_failure_isolation:
  assumes "batch_loop pe ws prompt 0 before [] s = (rs, s1)"
    and "callGemma3Vision pe (ws (length before)) (path x) prompt s1 = (Inl e, s2)"
  shows "batch_loop pe ws prompt 0 (before @ x # rest) [] s =
           batch_loop pe ws prompt (Suc (length before)) rest
             (rs @ [Failed (originalname x) (message e)])
             (cleanupFile (ws (length before)) (path x) s2)
       \<and> log (cleanupFile (ws (length before)) (path x) s2) = log s2 @ [Unlink (path x)]
       \<and> (unlink_fault (ws (length before)) (path x) = None \<longrightarrow>
            files (cleanupFile (ws (length before)) (path x) s2) (path x) = None)
       \<and> prefix (log (cleanupFile (ws (length before)) (path x) s2))
            (log (snd (batch_loop pe ws prompt 0 (before @ x # rest) [] s)))
       \<and> length (fst (batch_loop pe ws prompt 0 (before @ x # rest) [] s))
            = length before + 1 + length rest
       \<and> fst (batch_loop pe ws prompt 0 (before @ x # rest) [] s) ! length before
            = Failed (originalname x) (message e)"
proof -
  let ?s3 = "cleanupFile (ws (length before)) (path x) s2"
  let ?rs = "rs @ [Failed (originalname x) (message e)]"
  have n: "length rs = length before"
    using batch_loop_length[of pe ws prompt 0 before "[]" s] assms(1) by simp
  have step: "batch_loop pe ws prompt 0 (before @ x # rest) [] s =
      batch_loop pe ws prompt (Suc (length before)) rest ?rs ?s3"
    using assms by (simp add: batch_loop_append batch_item_failed)
  have pre: "prefix (log ?s3) (log (snd (batch_loop pe ws prompt 0 (before @ x # rest) [] s)))"
    using log_batch_loop[of pe ws prompt "Suc (length before)" rest ?rs ?s3]
    by (auto simp: step)
  have len: "length (fst (batch_loop pe ws prompt 0 (before @ x # rest) [] s))
      = length before + 1 + length rest"
    by (simp add: batch_loop_length)
  have "take (length ?rs) (fst (batch_loop pe ws prompt 0 (before @ x # rest) [] s)) = ?rs"
    unfolding step by (rule batch_loop_keeps)
  then have "take (length ?rs) (fst (batch_loop pe ws prompt 0 (before @ x # rest) [] s)) ! length before
      = ?rs ! length before"
    by simp
  then have nth: "fst (batch_loop pe ws prompt 0 (before @ x # rest) [] s) ! length before
      = Failed (originalname x) (message e)"
    using n by (simp add: nth_append)
  show ?thesis
    using step pre len nth by (simp add: log_cleanupFile files_cleanupFile)
qed


text \<open>
  Claim C4 at one input: a batch of three uploads in which the encoder writes the
  optimized copy of each and the generate call for the second one fails. The failure is
  kept to the second outcome and the third file is analysed, and the upload of the
  second file is deleted in its own turn; but its optimized copy is never unlinked and
  is still on disk when the batch is answered.
\<close>

theorem C4_failed_item_copy_left_behind:
  "fst (batch_analyze pe0 ws_second_times_out w_ok ''2025-01-01T00:00:00.000Z''
          (Some [file_a, file_b, file_c]) None s_abc) =
     Response 200
       (Batch True
          [Succeeded ''a.png'' ''A cat on a sofa.'' ''1.2s'' 3,
           Failed ''b.png'' ''Analysis timed out. Try with a smaller image or simpler prompt'',
           Succeeded ''c.png'' ''A cat on a sofa.'' ''1.2s'' 3]
          \<lparr>total = 3, successful = 2, failed = 1\<rparr>
          ''2025-01-01T00:00:00.000Z'')
   \<and> files (snd (batch_analyze pe0 ws_second_times_out w_ok ''2025-01-01T00:00:00.000Z''
                   (Some [file_a, file_b, file_c]) None s_abc))
        ''uploads/7c2e.png_optimized.jpg'' = Some [255, 216, 255]
   \<and> files (snd (batch_analyze pe0 ws_second_times_out w_ok ''2025-01-01T00:00:00.000Z''
                   (Some [file_a, file_b, file_c]) None s_abc))
        ''uploads/7c2e.png'' = None
   \<and> unlinked (log (snd (batch_analyze pe0 ws_second_times_out w_ok ''2025-01-01T00:00:00.000Z''
                             (Some [file_a, file_b, file_c]) None s_abc))) =
       [''uploads/1b9d.png_optimized.jpg'', ''uploads/1b9d.png'', ''uploads/7c2e.png'',
        ''uploads/e41f.png_optimized.jpg'', ''uploads/e41f.png'']"
  by (simp add: run_defs world_defs world2_defs)

text \<open>
  Claim C10. The \<open>try\<close> block of the batch route never throws, whatever the outside
  does during the turns of the loop, so the route never answers 500 on account of its
  files; for a batch that is not empty it answers 200 with \<open>success\<close> set to true,
  also when every outcome in \<open>results\<close> is a failure.
\<close>

theorem C10_batch_always_answers_200:
  "(\<exists>r. fst (batch_analyze_try pe ws now uploadedFiles req_prompt s) = Inr r)
   \<and> status (fst (batch_analyze pe ws wc now req_files req_prompt s)) \<noteq> 500
   \<and> (req_files = Some uploadedFiles \<and> uploadedFiles \<noteq> [] \<longrightarrow>
        (\<exists>results counts.
           fst (batch_analyze pe ws wc now req_files req_prompt s) =
             Response 200 (Batch True results counts now)))"
proof -
  have t: "\<And>fs. \<exists>r. fst (batch_analyze_try pe ws now fs req_prompt s) = Inr r
        \<and> status r \<noteq> 500
        \<and> (fs \<noteq> [] \<longrightarrow> (\<exists>results counts. r = Response 200 (Batch True results counts now)))"
    by (simp add: batch_analyze_try_def Let_def split: prod.splits)
  have a: "\<And>fs. fst (batch_analyze pe ws wc now fs req_prompt s) =
      (case fst (batch_analyze_try pe ws now (case fs of None \<Rightarrow> [] | Some xs \<Rightarrow> xs) req_prompt s) of
         Inr r \<Rightarrow> r | Inl e \<Rightarrow> Response 500 (ErrorAt (message e) now))"
    by (simp add: batch_analyze_def Let_def split: prod.splits sum.splits)
  show ?thesis
    using t[of uploadedFiles] t[of "case req_files of None \<Rightarrow> [] | Some xs \<Rightarrow> xs"]
    by (auto simp: a)
qed

theorem C10_batch_always_answers_200_witness:
  "[file_a, file_b] \<noteq> []
   \<and> fst (batch_analyze pe0 ws_all_down w_ok ''2025-01-01T00:00:00.000Z''
            (Some [file_a, file_b]) None s_ab) =
       Response 200
         (Batch True
            [Failed ''a.png'' ''Gemma3 analysis failed: Ollama server is not running. Please start Ollama with: ollama serve'',
             Failed ''b.png'' ''Gemma3 analysis failed: Ollama server is not running. Please start Ollama with: ollama serve'']
            \<lparr>total = 2, successful = 0, failed = 2\<rparr>
            ''2025-01-01T00:00:00.000Z'')"
  using C10_batch_always_answers_200 [of pe0 ws_all_down "''2025-01-01T00:00:00.000Z''"
      "[file_a, file_b]" None s_ab w_ok "Some [file_a, file_b]"]
  by (simp add: run_defs world_defs ws_all_down_def)

subsection \<open>The prompt\<close>






end
